theory Spec2Isabelle
  imports Complex_Main
begin

section \<open>JavaScript values\<close>

text \<open>
  A JavaScript number is a finite value, NaN or one of the two infinities. The finite
  doubles are rationals, and the code below only compares and stores them, so a finite
  number is modelled by the rational it denotes.
\<close>

datatype jsnum = Finite rat | NaN | PosInfinity | NegInfinity

text \<open>
  The values a decoded JSON frame or response field can hold. \<open>JObject s\<close> is an object or
  array whose conversion \<open>String(value)\<close> is \<open>s\<close>.
\<close>

datatype jsval = JNull | JUndefined | JBool bool | JNumber jsnum | JString string | JObject string

text \<open>Truthiness, as tested by \<open>a && b\<close> and \<open>if (a)\<close>.\<close>

fun truthy :: "jsval \<Rightarrow> bool" where
  "truthy JNull = False"
| "truthy JUndefined = False"
| "truthy (JBool b) = b"
| "truthy (JNumber (Finite r)) = (r \<noteq> 0)"
| "truthy (JNumber NaN) = False"
| "truthy (JNumber PosInfinity) = True"
| "truthy (JNumber NegInfinity) = True"
| "truthy (JString s) = (s \<noteq> [])"
| "truthy (JObject s) = True"

text \<open>
  The conversion \<open>Number(s)\<close> of a string belongs to the JavaScript runtime, not to the
  repository: it is a parameter \<open>toNumber\<close> of every function that reaches it.
  \<open>numbersOnly\<close> is the instance used to run the concrete scenarios below, in which every
  price is a JavaScript number and no string is ever converted.
\<close>

definition numbersOnly :: "string \<Rightarrow> jsnum" where
  "numbersOnly s = NaN"

section \<open>Layout: bot status, price trend, notifications\<close>

subsection \<open>State\<close>

text \<open>A decoded push frame \<open>{type, data}\<close>; \<open>mdata = None\<close> is a falsy \<open>data\<close>.\<close>

record payload =
  data_price :: jsval
  data_strategy_id :: jsval

record message =
  mtype :: jsval
  mdata :: "payload option"

record BotStatus =
  running :: bool
  logged_in :: bool
  current_price :: "rat option"
  lastMessage :: "message option"

record sample =
  price :: rat
  ts :: int

datatype trend = up | down | flat

datatype ToastType = success | error | warning

text \<open>
  The notification texts of the source are literals in Chinese; each is named here by
  a constructor. \<open>ServerDetail d\<close> is the server-supplied \<open>detail\<close> string.
\<close>

datatype toastText =
    StartupComplete | StrategyStopped | StrategyDeleted | StartSubmitted | StrategyPaused
  | SystemBusy | BusyPlacingOrders | OperationFailed | LoadListFailed | CreateFailed
  | ServerDetail string

record Toast =
  toast_id :: nat
  toast_type :: ToastType
  toast_message :: toastText

record layout =
  botStatus :: BotStatus
  priceHistory :: "sample list"
  priceTrend :: "trend option"
  toasts :: "Toast list"
  nextToastId :: nat

definition initialLayout :: layout where
  "initialLayout =
     \<lparr>botStatus = \<lparr>running = False, logged_in = False, current_price = None, lastMessage = None\<rparr>,
      priceHistory = [], priceTrend = None, toasts = [], nextToastId = 1\<rparr>"

subsection \<open>Notifications of the layout\<close>

definition showToast :: "ToastType \<Rightarrow> toastText \<Rightarrow> layout \<Rightarrow> layout" where
  "showToast ty msg st =
     st\<lparr>toasts := toasts st @ [\<lparr>toast_id = nextToastId st, toast_type = ty, toast_message = msg\<rparr>],
        nextToastId := nextToastId st + 1\<rparr>"

definition removeToast :: "nat \<Rightarrow> layout \<Rightarrow> layout" where
  "removeToast i st = st\<lparr>toasts := filter (\<lambda>t. toast_id t \<noteq> i) (toasts st)\<rparr>"

subsection \<open>Price normalisation and the trend window\<close>

text \<open>
  \<open>normalizePrice\<close>: \<open>null\<close> and \<open>undefined\<close> give \<open>null\<close>; a number is taken as it is; any
  other value is converted by \<open>Number(String(value).replace(/,/g, ''))\<close>; the result is kept
  only when \<open>Number.isFinite\<close> holds.
\<close>

definition stripCommas :: "string \<Rightarrow> string" where
  "stripCommas s = filter (\<lambda>c. c \<noteq> CHR '','') s"

fun finiteOrNull :: "jsnum \<Rightarrow> rat option" where
  "finiteOrNull (Finite r) = Some r"
| "finiteOrNull NaN = None"
| "finiteOrNull PosInfinity = None"
| "finiteOrNull NegInfinity = None"

fun normalizePrice :: "(string \<Rightarrow> jsnum) \<Rightarrow> jsval \<Rightarrow> rat option" where
  "normalizePrice toNumber JNull = None"
| "normalizePrice toNumber JUndefined = None"
| "normalizePrice toNumber (JNumber n) = finiteOrNull n"
| "normalizePrice toNumber (JBool b) =
     finiteOrNull (toNumber (stripCommas (if b then ''true'' else ''false'')))"
| "normalizePrice toNumber (JString s) = finiteOrNull (toNumber (stripCommas s))"
| "normalizePrice toNumber (JObject s) = finiteOrNull (toNumber (stripCommas s))"

text \<open>The filter of \<open>updatePrice\<close>: a sample stays while \<open>now - ts \<le> 5000\<close>.\<close>

definition prune :: "int \<Rightarrow> sample list \<Rightarrow> sample list" where
  "prune now xs = filter (\<lambda>p. now - ts p \<le> 5000) xs"

definition compareTrend :: "rat \<Rightarrow> sample \<Rightarrow> trend" where
  "compareTrend p oldest = (if p > price oldest then up else if p < price oldest then down else flat)"

text \<open>
  \<open>updatePrice\<close> at the instant \<open>now\<close> read by \<open>Date.now()\<close>. A rejected value returns
  before any state is touched.
\<close>

definition updatePrice :: "(string \<Rightarrow> jsnum) \<Rightarrow> int \<Rightarrow> jsval \<Rightarrow> layout \<Rightarrow> layout" where
  "updatePrice toNumber now v st =
     (case normalizePrice toNumber v of
        None \<Rightarrow> st
      | Some p \<Rightarrow>
          (let next = prune now (priceHistory st @ [\<lparr>price = p, ts = now\<rparr>])
           in st\<lparr>botStatus := (botStatus st)\<lparr>current_price := Some p\<rparr>,
                 priceHistory := next,
                 priceTrend := (case next of [] \<Rightarrow> priceTrend st
                                | oldest # rest \<Rightarrow> Some (compareTrend p oldest))\<rparr>))"

subsection \<open>Polling\<close>

text \<open>The body of a \<open>/bot/status\<close> response.\<close>

record statusData =
  data_running :: bool
  data_logged_in :: bool
  data_current_price :: jsval

text \<open>
  The outcome of an awaited request: it resolves with a body or it throws. \<open>Rejected\<close> also
  stands for a body on which reading a field throws, which the same \<open>catch\<close> handles.
\<close>

datatype 'a outcome = Resolved 'a | Rejected

definition fetchStatus ::
  "(string \<Rightarrow> jsnum) \<Rightarrow> int \<Rightarrow> statusData outcome \<Rightarrow> layout \<Rightarrow> layout" where
  "fetchStatus toNumber now res st =
     (case res of
        Rejected \<Rightarrow> st
      | Resolved d \<Rightarrow>
          (let p = normalizePrice toNumber (data_current_price d);
               st1 = st\<lparr>botStatus := (botStatus st)
                        \<lparr>running := data_running d,
                         logged_in := data_logged_in d,
                         current_price := (case p of Some q \<Rightarrow> Some q
                                           | None \<Rightarrow> current_price (botStatus st))\<rparr>\<rparr>
           in case p of
                None \<Rightarrow> st1
              | Some q \<Rightarrow> updatePrice toNumber now (JNumber (Finite q)) st1))"

subsection \<open>The push channel\<close>

text \<open>
  What \<open>JSON.parse\<close> makes of a frame: it throws, or yields a value. \<open>Parsed None\<close> is the
  value \<open>null\<close>, on which reading \<open>message.type\<close> throws after \<open>lastMessage\<close> was set; a
  primitive value is a message whose \<open>type\<close> is undefined.
\<close>

datatype frame = Unparsable | Parsed "message option"

definition onmessage :: "(string \<Rightarrow> jsnum) \<Rightarrow> int \<Rightarrow> frame \<Rightarrow> layout \<Rightarrow> layout" where
  "onmessage toNumber now f st =
     (case f of
        Unparsable \<Rightarrow> st
      | Parsed m \<Rightarrow>
          (let st1 = st\<lparr>botStatus := (botStatus st)\<lparr>lastMessage := m\<rparr>\<rparr>
           in case m of
                None \<Rightarrow> st1
              | Some msg \<Rightarrow>
                  (case mdata msg of
                     None \<Rightarrow> st1
                   | Some d \<Rightarrow>
                       if mtype msg = JString ''price_update'' \<and> truthy (data_price d)
                       then updatePrice toNumber now (data_price d) st1
                       else st1)))"

text \<open>The events the mounted layout reacts to, each at the instant it is handled.\<close>

datatype layoutEvent =
    Frame int frame
  | Poll int "statusData outcome"
  | Show ToastType toastText
  | Dismiss nat

fun layoutStep :: "(string \<Rightarrow> jsnum) \<Rightarrow> layout \<Rightarrow> layoutEvent \<Rightarrow> layout" where
  "layoutStep toNumber st (Frame now f) = onmessage toNumber now f st"
| "layoutStep toNumber st (Poll now res) = fetchStatus toNumber now res st"
| "layoutStep toNumber st (Show ty msg) = showToast ty msg st"
| "layoutStep toNumber st (Dismiss i) = removeToast i st"

definition layoutRun :: "(string \<Rightarrow> jsnum) \<Rightarrow> layoutEvent list \<Rightarrow> layout \<Rightarrow> layout" where
  "layoutRun toNumber evs st = foldl (layoutStep toNumber) st evs"

text \<open>A \<open>price_update\<close> frame carrying the number \<open>r\<close>.\<close>

definition priceFrame :: "rat \<Rightarrow> frame" where
  "priceFrame r =
     Parsed (Some \<lparr>mtype = JString ''price_update'',
                   mdata = Some \<lparr>data_price = JNumber (Finite r), data_strategy_id = JUndefined\<rparr>\<rparr>)"

section \<open>ToastProvider: the stand-alone notification component\<close>

datatype ProviderToastType = provider_success | provider_error | provider_warning | provider_info

text \<open>
  The id is \<open>Date.now().toString()\<close>: the decimal text of the millisecond clock, held here
  as the integer it prints. A pending \<open>setTimeout\<close> is the pair of its due instant and the
  id its callback removes.
\<close>

record ProviderToast =
  ptoast_id :: int
  ptoast_type :: ProviderToastType
  ptoast_message :: string

record provider =
  ptoasts :: "ProviderToast list"
  timers :: "(int \<times> int) list"

definition initialProvider :: provider where
  "initialProvider = \<lparr>ptoasts = [], timers = []\<rparr>"

definition provider_showToast :: "int \<Rightarrow> ProviderToastType \<Rightarrow> string \<Rightarrow> provider \<Rightarrow> provider" where
  "provider_showToast now ty msg st =
     st\<lparr>ptoasts := ptoasts st @ [\<lparr>ptoast_id = now, ptoast_type = ty, ptoast_message = msg\<rparr>],
        timers := timers st @ [(now + 4000, now)]\<rparr>"

definition provider_removeToast :: "int \<Rightarrow> provider \<Rightarrow> provider" where
  "provider_removeToast i st = st\<lparr>ptoasts := filter (\<lambda>t. ptoast_id t \<noteq> i) (ptoasts st)\<rparr>"

text \<open>The callback of the timer set by \<open>showToast\<close>.\<close>

definition provider_expire :: "int \<Rightarrow> provider \<Rightarrow> provider" where
  "provider_expire i st = st\<lparr>ptoasts := filter (\<lambda>t. ptoast_id t \<noteq> i) (ptoasts st)\<rparr>"

text \<open>The clock reaches \<open>now\<close>: every timer due by then fires, in the order it was set.\<close>

definition provider_tick :: "int \<Rightarrow> provider \<Rightarrow> provider" where
  "provider_tick now st =
     foldl (\<lambda>s d. provider_expire (snd d) s)
       (st\<lparr>timers := filter (\<lambda>d. \<not> fst d \<le> now) (timers st)\<rparr>)
       (filter (\<lambda>d. fst d \<le> now) (timers st))"

section \<open>StrategiesPage: lifecycle actions and startup progress\<close>

subsection \<open>State\<close>

text \<open>The fields of a strategy that the handlers read.\<close>

record Strategy =
  strategy_id :: int
  grid_count :: int

record progress =
  current :: int
  total :: int

datatype listAction = start | stop | delete

text \<open>
  What a rejected command exposes: \<open>error?.response?.status\<close> and
  \<open>error?.response?.data?.detail\<close>, each possibly undefined.
\<close>

record failure =
  status :: "int option"
  detail :: "string option"

datatype commandOutcome = Succeeded | Failed failure

text \<open>The calls a page makes on its collaborators, in order.\<close>

datatype call =
    CallShowToast ToastType toastText
  | CallLoadStrategies
  | CallLoadData
  | CallStartStrategy int
  | CallPauseStrategy int
  | CallStopStrategy int
  | CallDeleteStrategy int

text \<open>The confirmation dialog holds the action its \<open>onConfirm\<close> closure will execute.\<close>

record strategiesPage =
  strategies :: "Strategy list"
  actionLoading :: "int option"
  errorMessage :: "toastText option"
  confirmModal :: "(int \<times> listAction) option"
  startingStrategyId :: "int option"
  startingProgress :: progress
  pageLastMessage :: "message option"
  calls :: "call list"

definition initialPage :: strategiesPage where
  "initialPage =
     \<lparr>strategies = [], actionLoading = None, errorMessage = None, confirmModal = None,
      startingStrategyId = None, startingProgress = \<lparr>current = 0, total = 0\<rparr>,
      pageLastMessage = None, calls = []\<rparr>"

subsection \<open>The effect on push messages\<close>

text \<open>
  \<open>msg.data.strategy_id === startingStrategyId\<close>: strict equality of a decoded value with a
  number or \<open>null\<close>.
\<close>

fun strictEquals :: "jsval \<Rightarrow> int option \<Rightarrow> bool" where
  "strictEquals JNull None = True"
| "strictEquals (JNumber (Finite r)) (Some i) = (r = of_int i)"
| "strictEquals v w = False"

definition eventFor :: "string \<Rightarrow> message \<Rightarrow> int option \<Rightarrow> bool" where
  "eventFor ty msg pending =
     (mtype msg = JString ty \<and>
      (case mdata msg of None \<Rightarrow> False | Some d \<Rightarrow> strictEquals (data_strategy_id d) pending))"

text \<open>
  One run of the effect. Both tests read the \<open>startingStrategyId\<close> of the render that
  created the effect; the progress update is functional and applies to the latest value.
\<close>

definition wsEffect :: "strategiesPage \<Rightarrow> strategiesPage" where
  "wsEffect st =
     (case pageLastMessage st of
        None \<Rightarrow> st
      | Some msg \<Rightarrow>
          (let pending = startingStrategyId st;
               st1 = (if eventFor ''order_created'' msg pending
                      then st\<lparr>startingProgress :=
                               (startingProgress st)\<lparr>current := current (startingProgress st) + 1\<rparr>\<rparr>
                      else st)
           in if eventFor ''strategy_started'' msg pending
              then st1\<lparr>startingStrategyId := None,
                       startingProgress := \<lparr>current = 0, total = 0\<rparr>,
                       calls := calls st1 @ [CallLoadStrategies, CallShowToast success StartupComplete]\<rparr>
              else st1))"

text \<open>
  The effect depends on \<open>lastMessage\<close> and \<open>startingStrategyId\<close> (the two callbacks are
  stable). After a handler that left \<open>startingStrategyId\<close> different from \<open>dep\<close>, the value
  the effect last ran with, the effect runs again, and once more if that run changed it.
\<close>

definition commit :: "int option \<Rightarrow> strategiesPage \<Rightarrow> strategiesPage" where
  "commit dep st =
     (if startingStrategyId st = dep then st
      else (let st1 = wsEffect st
            in if startingStrategyId st1 = startingStrategyId st then st1 else wsEffect st1))"

text \<open>
  A render in which \<open>lastMessage\<close> holds the new value \<open>m\<close>: the effect runs, and runs
  again when it changed \<open>startingStrategyId\<close>.
\<close>

definition receive :: "message option \<Rightarrow> strategiesPage \<Rightarrow> strategiesPage" where
  "receive m st =
     (let st1 = wsEffect (st\<lparr>pageLastMessage := m\<rparr>)
      in if startingStrategyId st1 = startingStrategyId st then st1 else wsEffect st1)"

text \<open>
  The layout keeps a single \<open>lastMessage\<close> slot, which every parsed frame overwrites, and
  the effect reads the slot once per render. Of the frames the layout handles between two
  renders of the page, the effect therefore sees the last parsed value only; frames that
  do not parse leave the slot alone.
\<close>

fun parsedValues :: "frame list \<Rightarrow> message option list" where
  "parsedValues [] = []"
| "parsedValues (Unparsable # fs) = parsedValues fs"
| "parsedValues (Parsed m # fs) = m # parsedValues fs"

definition receiveFrames :: "frame list \<Rightarrow> strategiesPage \<Rightarrow> strategiesPage" where
  "receiveFrames fs st =
     (case parsedValues fs of
        [] \<Rightarrow> st
      | m # ms \<Rightarrow> receive (last (m # ms)) st)"

subsection \<open>Lifecycle commands of the list page\<close>

definition apiCall :: "int \<Rightarrow> listAction \<Rightarrow> call" where
  "apiCall i a = (case a of start \<Rightarrow> CallStartStrategy i
                  | stop \<Rightarrow> CallStopStrategy i
                  | delete \<Rightarrow> CallDeleteStrategy i)"

text \<open>\<open>executeAction\<close> up to its \<open>await\<close> of the command.\<close>

definition executeAction_begin :: "int \<Rightarrow> listAction \<Rightarrow> strategiesPage \<Rightarrow> strategiesPage" where
  "executeAction_begin i a st =
     st\<lparr>actionLoading := Some i, errorMessage := None, calls := calls st @ [apiCall i a]\<rparr>"

text \<open>The notification of the \<open>catch\<close> block: \<open>status === 503\<close>, else \<open>detail || generic\<close>.\<close>

definition failureToast :: "toastText \<Rightarrow> failure \<Rightarrow> call" where
  "failureToast busy f =
     (if status f = Some 503 then CallShowToast warning busy
      else CallShowToast error
             (case detail f of None \<Rightarrow> OperationFailed
              | Some d \<Rightarrow> if d = [] then OperationFailed else ServerDetail d))"

text \<open>\<open>executeAction\<close> from the point where the awaited command resolved or threw.\<close>

definition executeAction_settle ::
  "int \<Rightarrow> listAction \<Rightarrow> commandOutcome \<Rightarrow> strategiesPage \<Rightarrow> strategiesPage" where
  "executeAction_settle i a res st =
     (let st1 =
        (case res of
           Succeeded \<Rightarrow>
             (case a of
                start \<Rightarrow> st
              | stop \<Rightarrow> st\<lparr>calls := calls st @ [CallLoadStrategies, CallShowToast success StrategyStopped]\<rparr>
              | delete \<Rightarrow> st\<lparr>calls := calls st @ [CallLoadStrategies, CallShowToast success StrategyDeleted]\<rparr>)
         | Failed f \<Rightarrow>
             (let st0 = (if a = start then st\<lparr>startingStrategyId := None\<rparr> else st)
              in st0\<lparr>calls := calls st0 @ [failureToast SystemBusy f, CallLoadStrategies]\<rparr>))
      in st1\<lparr>actionLoading := None\<rparr>)"

definition handleAction :: "int \<Rightarrow> listAction \<Rightarrow> strategiesPage \<Rightarrow> strategiesPage" where
  "handleAction i a st =
     (case a of
        delete \<Rightarrow>
          (case find (\<lambda>s. strategy_id s = i) (strategies st) of
             None \<Rightarrow> st
           | Some s \<Rightarrow> st\<lparr>confirmModal := Some (i, delete)\<rparr>)
      | stop \<Rightarrow> st\<lparr>confirmModal := Some (i, stop)\<rparr>
      | start \<Rightarrow>
          executeAction_begin i start
            (case find (\<lambda>s. strategy_id s = i) (strategies st) of
               None \<Rightarrow> st
             | Some s \<Rightarrow> st\<lparr>startingStrategyId := Some i,
                             startingProgress := \<lparr>current = 0, total = grid_count s\<rparr>\<rparr>))"

text \<open>The confirm button: \<open>confirmModal.onConfirm(); setConfirmModal(null)\<close>.\<close>

definition confirm :: "strategiesPage \<Rightarrow> strategiesPage" where
  "confirm st =
     (case confirmModal st of
        None \<Rightarrow> st
      | Some (i, a) \<Rightarrow> (executeAction_begin i a st)\<lparr>confirmModal := None\<rparr>)"

text \<open>
  What the page reacts to; every handler is followed by the effects of its render.
  \<open>Settled\<close> is the awaited command of \<open>executeAction\<close> resolving or throwing, \<open>Loaded\<close> a
  successful \<open>loadStrategies\<close>. \<open>Received m\<close> is a render after a single parsed frame,
  \<open>Frames fs\<close> a render after the layout handled the frames \<open>fs\<close>. The buttons are disabled while \<open>actionLoading\<close> or
  \<open>startingStrategyId\<close> names their strategy; the handlers themselves do not test it, and
  neither does \<open>Click\<close>.
\<close>

datatype pageEvent =
    Click int listAction
  | Confirm
  | Cancel
  | Settled int listAction commandOutcome
  | Loaded "Strategy list"
  | Received "message option"
  | Frames "frame list"

fun pageStep :: "strategiesPage \<Rightarrow> pageEvent \<Rightarrow> strategiesPage" where
  "pageStep st (Click i a) = commit (startingStrategyId st) (handleAction i a st)"
| "pageStep st Confirm = commit (startingStrategyId st) (confirm st)"
| "pageStep st Cancel = st\<lparr>confirmModal := None\<rparr>"
| "pageStep st (Settled i a res) = commit (startingStrategyId st) (executeAction_settle i a res st)"
| "pageStep st (Loaded xs) = st\<lparr>strategies := xs\<rparr>"
| "pageStep st (Received m) = receive m st"
| "pageStep st (Frames fs) = receiveFrames fs st"

definition pageRun :: "pageEvent list \<Rightarrow> strategiesPage \<Rightarrow> strategiesPage" where
  "pageRun evs st = foldl pageStep st evs"

text \<open>The two lifecycle events for strategy \<open>i\<close>, as the backend frames them.\<close>

definition lifecycleEvent :: "string \<Rightarrow> jsval \<Rightarrow> message option" where
  "lifecycleEvent ty sid =
     Some \<lparr>mtype = JString ty, mdata = Some \<lparr>data_price = JUndefined, data_strategy_id = sid\<rparr>\<rparr>"

definition order_created :: "int \<Rightarrow> pageEvent" where
  "order_created i = Received (lifecycleEvent ''order_created'' (JNumber (Finite (of_int i))))"

definition strategy_started :: "int \<Rightarrow> pageEvent" where
  "strategy_started i = Received (lifecycleEvent ''strategy_started'' (JNumber (Finite (of_int i))))"

section \<open>StrategyDetailPage: lifecycle commands\<close>

datatype detailAction = detail_start | detail_pause | detail_stop

text \<open>
  The confirmation dialog of the detail page holds the \<open>doAction\<close> closure, that is the
  action and the id of the strategy loaded when the button was pressed.
\<close>

record detailPage =
  strategy :: "Strategy option"
  detailConfirm :: "(int \<times> detailAction) option"
  detailCalls :: "call list"

definition detailApiCall :: "int \<Rightarrow> detailAction \<Rightarrow> call" where
  "detailApiCall i a = (case a of detail_start \<Rightarrow> CallStartStrategy i
                        | detail_pause \<Rightarrow> CallPauseStrategy i
                        | detail_stop \<Rightarrow> CallStopStrategy i)"

text \<open>\<open>doAction\<close> up to its \<open>await\<close>, and from the point where the command settled.\<close>

definition doAction_begin :: "int \<Rightarrow> detailAction \<Rightarrow> detailPage \<Rightarrow> detailPage" where
  "doAction_begin i a st = st\<lparr>detailCalls := detailCalls st @ [detailApiCall i a]\<rparr>"

definition doAction_settle :: "detailAction \<Rightarrow> commandOutcome \<Rightarrow> detailPage \<Rightarrow> detailPage" where
  "doAction_settle a res st =
     (case res of
        Succeeded \<Rightarrow>
          st\<lparr>detailCalls := detailCalls st @
                [CallLoadData,
                 CallShowToast success
                   (case a of detail_start \<Rightarrow> StartSubmitted
                    | detail_pause \<Rightarrow> StrategyPaused
                    | detail_stop \<Rightarrow> StrategyStopped)]\<rparr>
      | Failed f \<Rightarrow> st\<lparr>detailCalls := detailCalls st @ [failureToast BusyPlacingOrders f]\<rparr>)"

definition detail_handleAction :: "detailAction \<Rightarrow> detailPage \<Rightarrow> detailPage" where
  "detail_handleAction a st =
     (case strategy st of
        None \<Rightarrow> st
      | Some s \<Rightarrow>
          if a = detail_stop then st\<lparr>detailConfirm := Some (strategy_id s, a)\<rparr>
          else doAction_begin (strategy_id s) a st)"

text \<open>The confirm button of the detail page runs the stored \<open>doAction\<close> and hides the dialog.\<close>

definition detail_confirm :: "detailPage \<Rightarrow> detailPage" where
  "detail_confirm st =
     (case detailConfirm st of
        None \<Rightarrow> st
      | Some (i, a) \<Rightarrow> (doAction_begin i a st)\<lparr>detailConfirm := None\<rparr>)"

section \<open>Invariants used in the proofs\<close>

text \<open>Every live toast of the layout carries an id below the counter.\<close>

definition idsBelowNext :: "layout \<Rightarrow> bool" where
  "idsBelowNext st = (\<forall>t\<in>set (toasts st). toast_id t < nextToastId st)"

section \<open>Properties of the layout\<close>

subsection \<open>Accepted and rejected price updates\<close>

lemma prune_keeps_new: "prune now (xs @ [\<lparr>price = p, ts = now\<rparr>]) \<noteq> []"
  by (simp add: prune_def)

lemma prune_alone:
  "prune now xs = [] \<Longrightarrow> prune now (xs @ [\<lparr>price = p, ts = now\<rparr>]) = [\<lparr>price = p, ts = now\<rparr>]"
  by (simp add: prune_def)

lemma updatePrice_accept:
  "normalizePrice toNumber v = Some p \<Longrightarrow>
   updatePrice toNumber now v st =
     st\<lparr>botStatus := (botStatus st)\<lparr>current_price := Some p\<rparr>,
        priceHistory := prune now (priceHistory st @ [\<lparr>price = p, ts = now\<rparr>]),
        priceTrend := Some (compareTrend p (hd (prune now (priceHistory st @ [\<lparr>price = p, ts = now\<rparr>]))))\<rparr>"
  using prune_keeps_new [of now "priceHistory st" p]
  by (simp add: updatePrice_def Let_def split: list.splits)

text \<open>The buffer an accepted update leaves is already pruned for its instant.\<close>

lemma updatePrice_buffer_pruned:
  "normalizePrice toNumber v = Some p \<Longrightarrow>
   prune now (priceHistory (updatePrice toNumber now v st)) = priceHistory (updatePrice toNumber now v st)"
  by (simp add: updatePrice_accept) (simp add: prune_def)

lemma updatePrice_reject:
  "normalizePrice toNumber v = None \<Longrightarrow> updatePrice toNumber now v st = st"
  by (simp add: updatePrice_def)

lemma updatePrice_price_kept:
  "current_price (botStatus st) \<noteq> None \<Longrightarrow>
   current_price (botStatus (updatePrice toNumber now v st)) \<noteq> None"
  by (cases "normalizePrice toNumber v") (simp_all add: updatePrice_accept updatePrice_reject)

lemma updatePrice_toasts:
  "toasts (updatePrice toNumber now v st) = toasts st \<and>
   nextToastId (updatePrice toNumber now v st) = nextToastId st"
  by (simp add: updatePrice_def Let_def split: option.splits)

lemma compareTrend_cases:
  "(compareTrend p s = up \<longleftrightarrow> price s < p) \<and>
   (compareTrend p s = down \<longleftrightarrow> p < price s) \<and>
   (compareTrend p s = flat \<longleftrightarrow> p = price s)"
  by (auto simp: compareTrend_def)

text \<open>A \<open>price_update\<close> frame with a non-zero number reaches \<open>updatePrice\<close>.\<close>

lemma priceFrame_step:
  "r \<noteq> 0 \<Longrightarrow>
   onmessage toNumber now (priceFrame r) st =
     updatePrice toNumber now (JNumber (Finite r))
       (st\<lparr>botStatus := (botStatus st)\<lparr>lastMessage :=
          Some \<lparr>mtype = JString ''price_update'',
                mdata = Some \<lparr>data_price = JNumber (Finite r), data_strategy_id = JUndefined\<rparr>\<rparr>\<rparr>\<rparr>)"
  by (simp add: onmessage_def priceFrame_def Let_def)

subsection \<open>The window in time order\<close>

lemma hd_sorted_least:
  "sorted (map f xs) \<Longrightarrow> q \<in> set xs \<Longrightarrow> f (hd xs) \<le> f q"
  by (cases xs) auto

lemma prune_sorted:
  assumes "sorted (map ts xs)" and "\<forall>q\<in>set xs. ts q \<le> now"
  shows "sorted (map ts (prune now (xs @ [\<lparr>price = p, ts = now\<rparr>])))"
proof -
  have "sorted (map ts (xs @ [\<lparr>price = p, ts = now\<rparr>]))"
    using assms by (simp add: sorted_append)
  then show ?thesis
    unfolding prune_def by (rule sorted_filter)
qed

lemma oldest_is_least:
  assumes "sorted (map ts xs)" and "\<forall>q\<in>set xs. ts q \<le> now"
    and "q \<in> set (prune now (xs @ [\<lparr>price = p, ts = now\<rparr>]))"
  shows "ts (hd (prune now (xs @ [\<lparr>price = p, ts = now\<rparr>]))) \<le> ts q"
  using prune_sorted [OF assms(1,2)] assms(3) by (rule hd_sorted_least)

subsection \<open>Three samples one second apart\<close>

lemma first_sample:
  assumes "prune t (priceHistory st0) = []" and "r \<noteq> 0"
  shows "priceHistory (onmessage toNumber t (priceFrame r) st0) = [\<lparr>price = r, ts = t\<rparr>]"
  using assms by (simp add: priceFrame_step updatePrice_accept prune_alone)

lemma second_sample:
  assumes "priceHistory st = [\<lparr>price = a, ts = t\<rparr>]" and "r \<noteq> 0"
  shows "priceHistory (onmessage toNumber (t + 1000) (priceFrame r) st)
           = [\<lparr>price = a, ts = t\<rparr>, \<lparr>price = r, ts = t + 1000\<rparr>]"
  using assms by (simp add: priceFrame_step updatePrice_accept prune_def)

lemma third_sample:
  assumes "priceHistory st = [\<lparr>price = a, ts = t\<rparr>, \<lparr>price = b, ts = t + 1000\<rparr>]" and "r \<noteq> 0"
  shows "priceTrend (onmessage toNumber (t + 2000) (priceFrame r) st)
           = Some (compareTrend r \<lparr>price = a, ts = t\<rparr>)"
  using assms by (simp add: priceFrame_step updatePrice_accept prune_def)

lemma scenario_down:
  assumes "prune t (priceHistory st0) = []"
  shows "priceTrend (layoutRun toNumber
        [Frame t (priceFrame 100), Frame (t + 1000) (priceFrame 102), Frame (t + 2000) (priceFrame 99)]
        st0) = Some down"
proof -
  have 1: "priceHistory (onmessage toNumber t (priceFrame 100) st0) = [\<lparr>price = 100, ts = t\<rparr>]"
    using assms by (rule first_sample) simp
  have 2: "priceHistory (onmessage toNumber (t + 1000) (priceFrame 102)
             (onmessage toNumber t (priceFrame 100) st0))
      = [\<lparr>price = 100, ts = t\<rparr>, \<lparr>price = 102, ts = t + 1000\<rparr>]"
    using 1 by (rule second_sample) simp
  have "priceTrend (onmessage toNumber (t + 2000) (priceFrame 99)
          (onmessage toNumber (t + 1000) (priceFrame 102) (onmessage toNumber t (priceFrame 100) st0)))
        = Some (compareTrend 99 \<lparr>price = 100, ts = t\<rparr>)"
    using 2 by (rule third_sample) simp
  then show ?thesis
    by (simp add: layoutRun_def compareTrend_def)
qed

subsection \<open>The price is never lost\<close>

lemma fetchStatus_resolved_null:
  "normalizePrice toNumber (data_current_price d) = None \<Longrightarrow>
   fetchStatus toNumber now (Resolved d) st =
     st\<lparr>botStatus := (botStatus st)\<lparr>running := data_running d, logged_in := data_logged_in d\<rparr>\<rparr>"
  by (simp add: fetchStatus_def Let_def)

lemma fetchStatus_resolved_price:
  "normalizePrice toNumber (data_current_price d) = Some p \<Longrightarrow>
   fetchStatus toNumber now (Resolved d) st =
     st\<lparr>botStatus := (botStatus st)
            \<lparr>running := data_running d, logged_in := data_logged_in d, current_price := Some p\<rparr>,
        priceHistory := prune now (priceHistory st @ [\<lparr>price = p, ts = now\<rparr>]),
        priceTrend := Some (compareTrend p (hd (prune now (priceHistory st @ [\<lparr>price = p, ts = now\<rparr>]))))\<rparr>"
  by (simp add: fetchStatus_def updatePrice_accept Let_def)

lemma fetchStatus_rejected: "fetchStatus toNumber now Rejected st = st"
  by (simp add: fetchStatus_def)

lemma fetchStatus_price_kept:
  assumes "current_price (botStatus st) \<noteq> None"
  shows "current_price (botStatus (fetchStatus toNumber now res st)) \<noteq> None"
proof (cases res)
  case Rejected
  with assms show ?thesis by (simp add: fetchStatus_rejected)
next
  case (Resolved d)
  show ?thesis
  proof (cases "normalizePrice toNumber (data_current_price d)")
    case None
    with assms Resolved show ?thesis by (simp add: fetchStatus_resolved_null)
  next
    case (Some p)
    with Resolved show ?thesis by (simp add: fetchStatus_resolved_price)
  qed
qed

lemma onmessage_price_kept:
  assumes "current_price (botStatus st) \<noteq> None"
  shows "current_price (botStatus (onmessage toNumber now f st)) \<noteq> None"
proof -
  let ?st1 = "\<lambda>m. st\<lparr>botStatus := (botStatus st)\<lparr>lastMessage := m\<rparr>\<rparr>"
  have kept: "current_price (botStatus (?st1 m)) \<noteq> None" for m
    using assms by simp
  have "onmessage toNumber now f st = st
      \<or> (\<exists>m. onmessage toNumber now f st = ?st1 m)
      \<or> (\<exists>m v. onmessage toNumber now f st = updatePrice toNumber now v (?st1 m))"
    by (auto simp: onmessage_def Let_def split: frame.splits option.splits)
  then show ?thesis
    using assms kept updatePrice_price_kept by metis
qed

lemma layoutStep_price_kept:
  "current_price (botStatus st) \<noteq> None \<Longrightarrow>
   current_price (botStatus (layoutStep toNumber st ev)) \<noteq> None"
  by (cases ev) (simp_all add: fetchStatus_price_kept onmessage_price_kept showToast_def removeToast_def)

lemma foldl_price_kept:
  "current_price (botStatus st) \<noteq> None \<Longrightarrow>
   current_price (botStatus (foldl (layoutStep toNumber) st evs)) \<noteq> None"
proof (induction evs arbitrary: st)
  case Nil
  then show ?case by simp
next
  case (Cons ev evs)
  from Cons.prems have "current_price (botStatus (layoutStep toNumber st ev)) \<noteq> None"
    by (rule layoutStep_price_kept)
  then have "current_price (botStatus (foldl (layoutStep toNumber) (layoutStep toNumber st ev) evs)) \<noteq> None"
    by (rule Cons.IH)
  then show ?case by simp
qed

subsection \<open>The single slot for the last message\<close>

lemma updatePrice_lastMessage:
  "lastMessage (botStatus (updatePrice toNumber now v st)) = lastMessage (botStatus st)"
  by (simp add: updatePrice_def Let_def split: option.splits)

lemma onmessage_slot:
  "lastMessage (botStatus (onmessage toNumber now f st)) =
     (case f of Unparsable \<Rightarrow> lastMessage (botStatus st) | Parsed m \<Rightarrow> m)"
  by (simp add: onmessage_def updatePrice_lastMessage Let_def split: frame.splits option.splits)

text \<open>
  After the layout has handled a run of frames, \<open>lastMessage\<close> is the last parsed value, or
  the old one when none parsed: this is the value \<open>receiveFrames\<close> hands to the page.
\<close>

lemma layout_slot_after_frames:
  "lastMessage (botStatus (layoutRun toNumber (map (\<lambda>p. Frame (fst p) (snd p)) tfs) st)) =
     (case parsedValues (map snd tfs) of
        [] \<Rightarrow> lastMessage (botStatus st)
      | m # ms \<Rightarrow> last (m # ms))"
proof (induction tfs arbitrary: st)
  case Nil
  then show ?case by (simp add: layoutRun_def)
next
  case (Cons tf tfs)
  have step: "layoutRun toNumber (map (\<lambda>p. Frame (fst p) (snd p)) (tf # tfs)) st =
      layoutRun toNumber (map (\<lambda>p. Frame (fst p) (snd p)) tfs) (onmessage toNumber (fst tf) (snd tf) st)"
    by (simp add: layoutRun_def)
  show ?case
  proof (cases "snd tf")
    case Unparsable
    then show ?thesis
      by (simp only: step Cons.IH) (simp add: onmessage_slot split: list.splits)
  next
    case (Parsed m)
    then show ?thesis
      by (simp only: step Cons.IH) (simp add: onmessage_slot split: list.splits)
  qed
qed

subsection \<open>Toasts of the layout\<close>

lemma fetchStatus_toasts:
  "toasts (fetchStatus toNumber now res st) = toasts st \<and>
   nextToastId (fetchStatus toNumber now res st) = nextToastId st"
  by (simp add: fetchStatus_def updatePrice_toasts Let_def split: outcome.splits option.splits)

lemma onmessage_toasts:
  "toasts (onmessage toNumber now f st) = toasts st \<and>
   nextToastId (onmessage toNumber now f st) = nextToastId st"
  by (simp add: onmessage_def updatePrice_toasts Let_def split: frame.splits option.splits)

text \<open>The counter hands out an id that no live toast carries, and stays above all of them.\<close>

lemma showToast_fresh:
  assumes "idsBelowNext st"
  shows "toast_id (last (toasts (showToast ty msg st))) \<notin> toast_id ` set (toasts st)"
    and "idsBelowNext (showToast ty msg st)"
  using assms by (auto simp: idsBelowNext_def showToast_def less_Suc_eq)

lemma layoutStep_idsBelowNext:
  "idsBelowNext st \<Longrightarrow> idsBelowNext (layoutStep toNumber st ev)"
proof (cases ev)
  case (Frame now f)
  then show "idsBelowNext st \<Longrightarrow> ?thesis"
    by (simp add: idsBelowNext_def onmessage_toasts)
next
  case (Poll now res)
  then show "idsBelowNext st \<Longrightarrow> ?thesis"
    by (simp add: idsBelowNext_def fetchStatus_toasts)
next
  case (Show ty msg)
  then show "idsBelowNext st \<Longrightarrow> ?thesis"
    by (simp add: showToast_fresh(2))
next
  case (Dismiss i)
  then show "idsBelowNext st \<Longrightarrow> ?thesis"
    by (simp add: idsBelowNext_def removeToast_def)
qed

text \<open>Only \<open>showToast\<close> and \<open>removeToast\<close> touch the toasts: nothing in the layout expires one.\<close>

lemma layoutStep_keeps_toasts:
  "\<forall>ty msg. ev \<noteq> Show ty msg \<Longrightarrow> \<forall>i. ev \<noteq> Dismiss i \<Longrightarrow>
   toasts (layoutStep toNumber st ev) = toasts st"
  by (cases ev) (simp_all add: onmessage_toasts fetchStatus_toasts)

lemma removeToast_absent:
  assumes "i \<notin> toast_id ` set (toasts st)"
  shows "removeToast i st = st"
proof -
  from assms have "filter (\<lambda>t. toast_id t \<noteq> i) (toasts st) = toasts st"
    by (auto simp: filter_id_conv)
  then show ?thesis by (simp add: removeToast_def)
qed

lemma removeToast_twice: "removeToast i (removeToast i st) = removeToast i st"
  by (simp add: removeToast_def)

section \<open>Properties of the ToastProvider\<close>

lemma provider_expire_is_remove: "provider_expire i st = provider_removeToast i st"
  by (simp add: provider_expire_def provider_removeToast_def)

lemma provider_remove_absent:
  assumes "i \<notin> ptoast_id ` set (ptoasts st)"
  shows "provider_removeToast i st = st"
proof -
  from assms have "filter (\<lambda>t. ptoast_id t \<noteq> i) (ptoasts st) = ptoasts st"
    by (auto simp: filter_id_conv)
  then show ?thesis by (simp add: provider_removeToast_def)
qed

text \<open>A toast shown alone is gone when its timer fires, 4000ms later, and not before.\<close>

lemma provider_expires_after_4000:
  "ptoasts (provider_tick (now + 4000) (provider_showToast now ty msg initialProvider)) = [] \<and>
   ptoasts (provider_tick (now + 3999) (provider_showToast now ty msg initialProvider))
     = [\<lparr>ptoast_id = now, ptoast_type = ty, ptoast_message = msg\<rparr>]"
  by (simp add: provider_tick_def provider_showToast_def provider_expire_def initialProvider_def)

section \<open>Properties of the StrategiesPage\<close>

subsection \<open>The effect on unrelated and on matching events\<close>

lemma receive_unmatched:
  assumes "\<not> eventFor ''order_created'' msg (startingStrategyId st)"
    and "\<not> eventFor ''strategy_started'' msg (startingStrategyId st)"
  shows "receive (Some msg) st = st\<lparr>pageLastMessage := Some msg\<rparr>"
  using assms by (simp add: receive_def wsEffect_def Let_def)

lemma received_is_single_frame: "pageStep st (Frames [Parsed m]) = pageStep st (Received m)"
  by (simp add: receiveFrames_def)

text \<open>A run of the effect that changed \<open>startingStrategyId\<close> is followed by one that does not.\<close>

lemma effect_reruns_settle:
  "startingStrategyId (wsEffect st) \<noteq> startingStrategyId st \<Longrightarrow>
   startingStrategyId (wsEffect (wsEffect st)) = startingStrategyId (wsEffect st)"
  by (auto simp: wsEffect_def Let_def split: option.splits if_splits)

lemma receive_order_created:
  "startingStrategyId st = Some i \<Longrightarrow>
   pageStep st (order_created i) =
     st\<lparr>pageLastMessage := lifecycleEvent ''order_created'' (JNumber (Finite (of_int i))),
        startingProgress := (startingProgress st)\<lparr>current := current (startingProgress st) + 1\<rparr>\<rparr>"
  by (simp add: order_created_def receive_def wsEffect_def eventFor_def lifecycleEvent_def Let_def)

lemma receive_strategy_started:
  "startingStrategyId st = Some i \<Longrightarrow>
   pageStep st (strategy_started i) =
     st\<lparr>pageLastMessage := lifecycleEvent ''strategy_started'' (JNumber (Finite (of_int i))),
        startingStrategyId := None,
        startingProgress := \<lparr>current = 0, total = 0\<rparr>,
        calls := calls st @ [CallLoadStrategies, CallShowToast success StartupComplete]\<rparr>"
  by (simp add: strategy_started_def receive_def wsEffect_def eventFor_def lifecycleEvent_def Let_def)

subsection \<open>Starting a strategy\<close>

text \<open>
  The start button, pressed while the last message seen is not a lifecycle event of the
  same strategy: the re-run of the effect that the new \<open>startingStrategyId\<close> causes finds
  nothing to do.
\<close>

lemma click_start:
  assumes "find (\<lambda>s. strategy_id s = i) (strategies st) = Some s"
    and "\<forall>msg. pageLastMessage st = Some msg \<longrightarrow>
           \<not> eventFor ''order_created'' msg (Some i) \<and> \<not> eventFor ''strategy_started'' msg (Some i)"
  shows "pageStep st (Click i start) =
     st\<lparr>startingStrategyId := Some i,
        startingProgress := \<lparr>current = 0, total = grid_count s\<rparr>,
        actionLoading := Some i, errorMessage := None,
        calls := calls st @ [CallStartStrategy i]\<rparr>"
proof -
  let ?st1 = "handleAction i start st"
  have h: "?st1 = st\<lparr>startingStrategyId := Some i,
        startingProgress := \<lparr>current = 0, total = grid_count s\<rparr>,
        actionLoading := Some i, errorMessage := None,
        calls := calls st @ [CallStartStrategy i]\<rparr>"
    using assms(1) by (simp add: handleAction_def executeAction_begin_def apiCall_def)
  have "wsEffect ?st1 = ?st1"
  proof (cases "pageLastMessage st")
    case None
    then show ?thesis by (simp add: h wsEffect_def)
  next
    case (Some msg)
    with assms(2) show ?thesis by (simp add: h wsEffect_def Let_def)
  qed
  then have "commit (startingStrategyId st) ?st1 = ?st1"
    by (simp add: commit_def Let_def)
  then show ?thesis by (simp add: h)
qed

lemma settle_start_ok:
  "pageStep x (Settled i start Succeeded) = x\<lparr>actionLoading := None\<rparr>"
  by (simp add: executeAction_settle_def commit_def)

text \<open>
  The start of strategy 7 when every frame is rendered on its own and nothing is replayed.
  Strategy 7 is in the list with \<open>grid_count\<close> 10, and the last message the page has
  seen is not a lifecycle event of strategy 7. Pressing start creates the progress
  \<open>{current: 0, total: 10}\<close> for the pending id 7 and sends the start command; each of three
  \<open>order_created\<close> events of strategy 7 raises \<open>current\<close> by one, to 1, 2 and 3, with
  \<open>total\<close> still 10 and nothing else called; the \<open>strategy_started\<close> event of strategy 7 then
  clears the pending id and the progress, and calls exactly the reload of the list and one
  success notification. The start command resolving, whenever it does, only clears
  \<open>actionLoading\<close>.
\<close>

lemma startup_one_frame_per_render:
  assumes "find (\<lambda>s. strategy_id s = 7) (strategies st) = Some s"
    and "grid_count s = 10"
    and "\<forall>msg. pageLastMessage st = Some msg \<longrightarrow>
           \<not> eventFor ''order_created'' msg (Some 7) \<and> \<not> eventFor ''strategy_started'' msg (Some 7)"
  shows "(let s1 = pageStep st (Click 7 start);
              s2 = pageStep s1 (order_created 7);
              s3 = pageStep s2 (order_created 7);
              s4 = pageStep s3 (order_created 7);
              s5 = pageStep s4 (strategy_started 7)
          in startingStrategyId s1 = Some 7 \<and> startingProgress s1 = \<lparr>current = 0, total = 10\<rparr> \<and>
             startingStrategyId s2 = Some 7 \<and> startingProgress s2 = \<lparr>current = 1, total = 10\<rparr> \<and>
             startingStrategyId s3 = Some 7 \<and> startingProgress s3 = \<lparr>current = 2, total = 10\<rparr> \<and>
             startingStrategyId s4 = Some 7 \<and> startingProgress s4 = \<lparr>current = 3, total = 10\<rparr> \<and>
             calls s4 = calls st @ [CallStartStrategy 7] \<and>
             startingStrategyId s5 = None \<and> startingProgress s5 = \<lparr>current = 0, total = 0\<rparr> \<and>
             calls s5 = calls s4 @ [CallLoadStrategies, CallShowToast success StartupComplete]) \<and>
         pageStep x (Settled 7 start Succeeded) = x\<lparr>actionLoading := None\<rparr>"
proof -
  define s1 where "s1 = pageStep st (Click 7 start)"
  define s2 where "s2 = pageStep s1 (order_created 7)"
  define s3 where "s3 = pageStep s2 (order_created 7)"
  define s4 where "s4 = pageStep s3 (order_created 7)"
  define s5 where "s5 = pageStep s4 (strategy_started 7)"
  have 1: "startingStrategyId s1 = Some 7" "startingProgress s1 = \<lparr>current = 0, total = 10\<rparr>"
    "calls s1 = calls st @ [CallStartStrategy 7]"
    unfolding s1_def by (simp_all only: click_start [OF assms(1,3)] assms(2)) simp_all
  have 2: "startingStrategyId s2 = Some 7" "startingProgress s2 = \<lparr>current = 1, total = 10\<rparr>"
    "calls s2 = calls st @ [CallStartStrategy 7]"
    unfolding s2_def by (simp_all only: receive_order_created [OF 1(1)]) (simp_all add: 1)
  have 3: "startingStrategyId s3 = Some 7" "startingProgress s3 = \<lparr>current = 2, total = 10\<rparr>"
    "calls s3 = calls st @ [CallStartStrategy 7]"
    unfolding s3_def by (simp_all only: receive_order_created [OF 2(1)]) (simp_all add: 2)
  have 4: "startingStrategyId s4 = Some 7" "startingProgress s4 = \<lparr>current = 3, total = 10\<rparr>"
    "calls s4 = calls st @ [CallStartStrategy 7]"
    unfolding s4_def by (simp_all only: receive_order_created [OF 3(1)]) (simp_all add: 3)
  have 5: "startingStrategyId s5 = None" "startingProgress s5 = \<lparr>current = 0, total = 0\<rparr>"
    "calls s5 = calls s4 @ [CallLoadStrategies, CallShowToast success StartupComplete]"
    unfolding s5_def by (simp_all only: receive_strategy_started [OF 4(1)]) simp_all
  have 6: "pageStep x (Settled 7 start Succeeded) = x\<lparr>actionLoading := None\<rparr>"
    by (rule settle_start_ok)
  from 1 2 3 4 5 6 show ?thesis
    unfolding Let_def s1_def s2_def s3_def s4_def s5_def by blast
qed

text \<open>
  An instance: the freshly mounted page, which has seen no message, with the strategies
  3 and 7 loaded.
\<close>

lemma startup_on_fresh_page:
  "find (\<lambda>s. strategy_id s = 7)
     (strategies (initialPage\<lparr>strategies :=
        [\<lparr>strategy_id = 3, grid_count = 5\<rparr>, \<lparr>strategy_id = 7, grid_count = 10\<rparr>]\<rparr>))
     = Some \<lparr>strategy_id = 7, grid_count = 10\<rparr> \<and>
   grid_count \<lparr>strategy_id = 7, grid_count = 10\<rparr> = 10 \<and>
   pageLastMessage (initialPage\<lparr>strategies :=
        [\<lparr>strategy_id = 3, grid_count = 5\<rparr>, \<lparr>strategy_id = 7, grid_count = 10\<rparr>]\<rparr>) = None \<and>
   startingProgress (pageRun [Click 7 start]
      (initialPage\<lparr>strategies :=
        [\<lparr>strategy_id = 3, grid_count = 5\<rparr>, \<lparr>strategy_id = 7, grid_count = 10\<rparr>]\<rparr>))
     = \<lparr>current = 0, total = 10\<rparr> \<and>
   startingProgress (pageRun [Click 7 start, order_created 7, order_created 7, order_created 7]
      (initialPage\<lparr>strategies :=
        [\<lparr>strategy_id = 3, grid_count = 5\<rparr>, \<lparr>strategy_id = 7, grid_count = 10\<rparr>]\<rparr>))
     = \<lparr>current = 3, total = 10\<rparr> \<and>
   startingStrategyId
     (pageRun [Click 7 start, order_created 7, order_created 7, order_created 7, strategy_started 7]
      (initialPage\<lparr>strategies :=
        [\<lparr>strategy_id = 3, grid_count = 5\<rparr>, \<lparr>strategy_id = 7, grid_count = 10\<rparr>]\<rparr>))
     = None \<and>
   calls (pageRun [Click 7 start, order_created 7, order_created 7, order_created 7, strategy_started 7]
      (initialPage\<lparr>strategies :=
        [\<lparr>strategy_id = 3, grid_count = 5\<rparr>, \<lparr>strategy_id = 7, grid_count = 10\<rparr>]\<rparr>))
     = [CallStartStrategy 7, CallLoadStrategies, CallShowToast success StartupComplete]"
  using startup_one_frame_per_render
    [of "initialPage\<lparr>strategies :=
           [\<lparr>strategy_id = 3, grid_count = 5\<rparr>, \<lparr>strategy_id = 7, grid_count = 10\<rparr>]\<rparr>"
        "\<lparr>strategy_id = 7, grid_count = 10\<rparr>"]
  by (simp add: initialPage_def pageRun_def Let_def)

subsection \<open>Failed commands on the list page\<close>

lemma failureToast_busy:
  "status f = Some 503 \<Longrightarrow> failureToast busy f = CallShowToast warning busy"
  by (simp add: failureToast_def)

lemma failureToast_other:
  "status f \<noteq> Some 503 \<Longrightarrow>
   failureToast busy f = CallShowToast error
     (case detail f of None \<Rightarrow> OperationFailed
      | Some d \<Rightarrow> if d = [] then OperationFailed else ServerDetail d)"
  by (simp add: failureToast_def)

text \<open>
  Every failed \<open>start\<close>, \<open>stop\<close> or \<open>delete\<close> of the list page shows the classified
  notification and then reloads the list.
\<close>

lemma list_failure_reloads:
  "calls (executeAction_settle i a (Failed f) st)
     = calls st @ [failureToast SystemBusy f, CallLoadStrategies]"
  by (simp add: executeAction_settle_def Let_def)

section \<open>Properties of the StrategyDetailPage\<close>

text \<open>A failed command of the detail page is followed by its notification and by no other call.\<close>

lemma detail_failure_only_notifies:
  "detailCalls (doAction_settle a (Failed f) st) = detailCalls st @ [failureToast BusyPlacingOrders f]"
  by (simp add: doAction_settle_def)

section \<open>The claims\<close>

subsection \<open>Polling against the push channel\<close>

text \<open>
  C1, as the code has it. A successful poll whose \<open>current_price\<close> normalises to a finite
  number \<open>p\<close> always sets \<open>current_price\<close> to \<open>p\<close> and appends \<open>p\<close> as a sample of the
  instant the response is handled. No test of freshness stands between the polled price
  and the status, so a price pushed a moment earlier is overwritten.
\<close>

theorem poll_price_overwrites:
  "normalizePrice toNumber (data_current_price d) = Some p \<Longrightarrow>
   current_price (botStatus (fetchStatus toNumber now (Resolved d) st)) = Some p \<and>
   priceHistory (fetchStatus toNumber now (Resolved d) st)
     = prune now (priceHistory st @ [\<lparr>price = p, ts = now\<rparr>])"
  by (simp add: fetchStatus_resolved_price)

text \<open>An instance: a poll carrying 90, handled one second after a pushed 100.\<close>

theorem poll_price_overwrites_witness:
  "normalizePrice numbersOnly
     (data_current_price \<lparr>data_running = True, data_logged_in = True,
                          data_current_price = JNumber (Finite 90)\<rparr>) = Some 90 \<and>
   current_price (botStatus (fetchStatus numbersOnly 2000
     (Resolved \<lparr>data_running = True, data_logged_in = True, data_current_price = JNumber (Finite 90)\<rparr>)
     (onmessage numbersOnly 1000 (priceFrame 100) initialLayout))) = Some 90"
  using poll_price_overwrites [of numbersOnly
      "\<lparr>data_running = True, data_logged_in = True, data_current_price = JNumber (Finite 90)\<rparr>" 90
      2000 "onmessage numbersOnly 1000 (priceFrame 100) initialLayout"]
  by simp

text \<open>
  C1 as stated fails. The price 100 is pushed and accepted at instant 1000; a poll
  carrying 90 is folded at instant 2000, inside the same five-second window; the
  status then shows 90, not the newer 100.
\<close>

theorem stale_poll_counterexample:
  "current_price (botStatus (onmessage numbersOnly 1000 (priceFrame 100) initialLayout)) = Some 100 \<and>
   priceHistory (onmessage numbersOnly 1000 (priceFrame 100) initialLayout)
     = [\<lparr>price = 100, ts = 1000\<rparr>] \<and>
   (2000::int) - 1000 \<le> 5000 \<and>
   current_price (botStatus (fetchStatus numbersOnly 2000
     (Resolved \<lparr>data_running = True, data_logged_in = True, data_current_price = JNumber (Finite 90)\<rparr>)
     (onmessage numbersOnly 1000 (priceFrame 100) initialLayout))) = Some 90 \<and>
   current_price (botStatus (fetchStatus numbersOnly 2000
     (Resolved \<lparr>data_running = True, data_logged_in = True, data_current_price = JNumber (Finite 90)\<rparr>)
     (onmessage numbersOnly 1000 (priceFrame 100) initialLayout)))
     \<noteq> current_price (botStatus (onmessage numbersOnly 1000 (priceFrame 100) initialLayout))"
  by (simp add: fetchStatus_def priceFrame_step updatePrice_accept prune_def Let_def initialLayout_def)

subsection \<open>The trend\<close>

text \<open>
  C2, as the code has it. The new sample is appended before the filter runs and always
  survives it, so the buffer is never empty and the trend is recomputed on every accepted
  sample. When the new sample is the only one left, it is compared with itself and the
  trend becomes \<open>flat\<close>, whatever it was before.
\<close>

theorem lone_sample_sets_flat:
  "normalizePrice toNumber v = Some p \<Longrightarrow>
   prune now (priceHistory st @ [\<lparr>price = p, ts = now\<rparr>]) = [\<lparr>price = p, ts = now\<rparr>] \<Longrightarrow>
   priceHistory (updatePrice toNumber now v st) = [\<lparr>price = p, ts = now\<rparr>] \<and>
   priceTrend (updatePrice toNumber now v st) = Some flat"
  by (simp add: updatePrice_accept compareTrend_def)

text \<open>An instance: the trend was \<open>up\<close>, and both older samples have left the window.\<close>

theorem lone_sample_sets_flat_witness:
  "normalizePrice numbersOnly (JNumber (Finite 105)) = Some 105 \<and>
   prune 10000 ([\<lparr>price = 100, ts = 0\<rparr>, \<lparr>price = 102, ts = 1000\<rparr>] @ [\<lparr>price = 105, ts = 10000\<rparr>])
     = [\<lparr>price = 105, ts = 10000\<rparr>] \<and>
   priceTrend (updatePrice numbersOnly 10000 (JNumber (Finite 105))
      (initialLayout\<lparr>priceHistory := [\<lparr>price = 100, ts = 0\<rparr>, \<lparr>price = 102, ts = 1000\<rparr>],
                     priceTrend := Some up\<rparr>)) = Some flat"
  using lone_sample_sets_flat [of numbersOnly "JNumber (Finite 105)" 105 10000
      "initialLayout\<lparr>priceHistory := [\<lparr>price = 100, ts = 0\<rparr>, \<lparr>price = 102, ts = 1000\<rparr>],
                     priceTrend := Some up\<rparr>"]
  by (simp add: prune_def)

text \<open>
  C2 as stated fails. After the pushed prices 100 and 102 the trend is \<open>up\<close>; the next
  price, 105, arrives nine seconds later, is alone in the buffer after the filter, and
  the trend is \<open>flat\<close>: it did not keep its previous value.
\<close>

theorem lone_sample_trend_counterexample:
  "priceTrend (layoutRun numbersOnly [Frame 0 (priceFrame 100), Frame 1000 (priceFrame 102)] initialLayout)
     = Some up \<and>
   priceHistory (layoutRun numbersOnly
       [Frame 0 (priceFrame 100), Frame 1000 (priceFrame 102), Frame 10000 (priceFrame 105)] initialLayout)
     = [\<lparr>price = 105, ts = 10000\<rparr>] \<and>
   priceTrend (layoutRun numbersOnly
       [Frame 0 (priceFrame 100), Frame 1000 (priceFrame 102), Frame 10000 (priceFrame 105)] initialLayout)
     = Some flat \<and>
   priceTrend (layoutRun numbersOnly
       [Frame 0 (priceFrame 100), Frame 1000 (priceFrame 102), Frame 10000 (priceFrame 105)] initialLayout)
     \<noteq> priceTrend (layoutRun numbersOnly
       [Frame 0 (priceFrame 100), Frame 1000 (priceFrame 102)] initialLayout)"
  by (simp add: layoutRun_def priceFrame_step updatePrice_accept prune_def compareTrend_def
      initialLayout_def)

text \<open>
  C5. For an accepted sample \<open>p\<close> at instant \<open>now\<close>, the buffer after the update is the
  filtered buffer \<open>next\<close>; it is not empty and holds only samples at most 5000ms old; its
  head is the oldest of them when the buffer was in time order; and the trend is \<open>up\<close>
  exactly when \<open>p\<close> is above the head's price, \<open>down\<close> exactly when below, \<open>flat\<close> exactly
  when equal. In particular the pushed prices 100, 102, 99, one second apart and starting
  from a buffer with nothing left in the window, end with the trend \<open>down\<close>.
\<close>

theorem trend_compares_with_oldest_in_window:
  "(normalizePrice toNumber v = Some p \<longrightarrow>
      (let next = prune now (priceHistory st @ [\<lparr>price = p, ts = now\<rparr>]);
           st' = updatePrice toNumber now v st
       in next \<noteq> [] \<and> priceHistory st' = next \<and>
          (\<forall>q\<in>set next. now - ts q \<le> 5000) \<and>
          (sorted (map ts (priceHistory st)) \<and> (\<forall>q\<in>set (priceHistory st). ts q \<le> now)
             \<longrightarrow> (\<forall>q\<in>set next. ts (hd next) \<le> ts q)) \<and>
          (priceTrend st' = Some up \<longleftrightarrow> price (hd next) < p) \<and>
          (priceTrend st' = Some down \<longleftrightarrow> p < price (hd next)) \<and>
          (priceTrend st' = Some flat \<longleftrightarrow> p = price (hd next)))) \<and>
   (prune t (priceHistory st0) = [] \<longrightarrow>
      priceTrend (layoutRun toNumber
        [Frame t (priceFrame 100), Frame (t + 1000) (priceFrame 102), Frame (t + 2000) (priceFrame 99)]
        st0) = Some down)"
proof (intro conjI impI)
  assume acc: "normalizePrice toNumber v = Some p"
  define nxt where "nxt = prune now (priceHistory st @ [\<lparr>price = p, ts = now\<rparr>])"
  define st' where "st' = updatePrice toNumber now v st"
  have ne: "nxt \<noteq> []"
    unfolding nxt_def by (rule prune_keeps_new)
  have win: "\<forall>q\<in>set nxt. now - ts q \<le> 5000"
    by (simp add: nxt_def prune_def)
  have ord: "sorted (map ts (priceHistory st)) \<and> (\<forall>q\<in>set (priceHistory st). ts q \<le> now)
             \<longrightarrow> (\<forall>q\<in>set nxt. ts (hd nxt) \<le> ts q)"
    unfolding nxt_def using oldest_is_least by blast
  have hi: "priceHistory st' = nxt"
    by (simp add: st'_def nxt_def updatePrice_accept [OF acc])
  have tr: "priceTrend st' = Some (compareTrend p (hd nxt))"
    by (simp add: st'_def nxt_def updatePrice_accept [OF acc])
  have cmp: "(priceTrend st' = Some up \<longleftrightarrow> price (hd nxt) < p) \<and>
             (priceTrend st' = Some down \<longleftrightarrow> p < price (hd nxt)) \<and>
             (priceTrend st' = Some flat \<longleftrightarrow> p = price (hd nxt))"
    using compareTrend_cases [of p "hd nxt"] by (simp add: tr)
  from ne hi win ord cmp
  show "let next = prune now (priceHistory st @ [\<lparr>price = p, ts = now\<rparr>]);
            st' = updatePrice toNumber now v st
        in next \<noteq> [] \<and> priceHistory st' = next \<and>
          (\<forall>q\<in>set next. now - ts q \<le> 5000) \<and>
          (sorted (map ts (priceHistory st)) \<and> (\<forall>q\<in>set (priceHistory st). ts q \<le> now)
             \<longrightarrow> (\<forall>q\<in>set next. ts (hd next) \<le> ts q)) \<and>
          (priceTrend st' = Some up \<longleftrightarrow> price (hd next) < p) \<and>
          (priceTrend st' = Some down \<longleftrightarrow> p < price (hd next)) \<and>
          (priceTrend st' = Some flat \<longleftrightarrow> p = price (hd next))"
    unfolding Let_def nxt_def st'_def by blast
next
  assume "prune t (priceHistory st0) = []"
  then show "priceTrend (layoutRun toNumber
        [Frame t (priceFrame 100), Frame (t + 1000) (priceFrame 102), Frame (t + 2000) (priceFrame 99)]
        st0) = Some down"
    by (rule scenario_down)
qed

text \<open>
  An instance: 99 arrives at instant 3000 on the ordered buffer of 100 and 102, and the
  three frames run from the initial state of the layout.
\<close>

theorem trend_compares_with_oldest_in_window_witness:
  "normalizePrice numbersOnly (JNumber (Finite 99)) = Some 99 \<and>
   sorted (map ts [\<lparr>price = 100, ts = 1000\<rparr>, \<lparr>price = 102, ts = 2000\<rparr>]) \<and>
   ts \<lparr>price = 100, ts = 1000\<rparr> \<le> 3000 \<and> ts \<lparr>price = 102, ts = 2000\<rparr> \<le> 3000 \<and>
   prune 1000 (priceHistory initialLayout) = [] \<and>
   priceHistory (updatePrice numbersOnly 3000 (JNumber (Finite 99))
      (initialLayout\<lparr>priceHistory := [\<lparr>price = 100, ts = 1000\<rparr>, \<lparr>price = 102, ts = 2000\<rparr>]\<rparr>))
     = [\<lparr>price = 100, ts = 1000\<rparr>, \<lparr>price = 102, ts = 2000\<rparr>, \<lparr>price = 99, ts = 3000\<rparr>] \<and>
   priceTrend (updatePrice numbersOnly 3000 (JNumber (Finite 99))
      (initialLayout\<lparr>priceHistory := [\<lparr>price = 100, ts = 1000\<rparr>, \<lparr>price = 102, ts = 2000\<rparr>]\<rparr>))
     = Some down \<and>
   priceTrend (layoutRun numbersOnly
        [Frame 1000 (priceFrame 100), Frame 2000 (priceFrame 102), Frame 3000 (priceFrame 99)]
        initialLayout) = Some down"
  using trend_compares_with_oldest_in_window
    [of numbersOnly "JNumber (Finite 99)" 99 3000
        "initialLayout\<lparr>priceHistory := [\<lparr>price = 100, ts = 1000\<rparr>, \<lparr>price = 102, ts = 2000\<rparr>]\<rparr>"
        1000 initialLayout]
  by (simp add: prune_def initialLayout_def Let_def)

text \<open>
  C9. Pruning the sample buffer at one instant is idempotent: a second prune at the same
  instant returns the buffer of the first.
\<close>

theorem prune_idempotent: "prune now (prune now xs) = prune now xs"
  by (simp add: prune_def)

subsection \<open>What a poll and a bad sample leave alone\<close>

text \<open>
  C7. From a state whose \<open>current_price\<close> is set, it stays set after \<open>updatePrice\<close> on any
  value, after a poll with any outcome, after any push frame, and after any sequence of
  events of the layout.
\<close>

theorem price_never_back_to_null:
  "current_price (botStatus st) \<noteq> None \<Longrightarrow>
     current_price (botStatus (updatePrice toNumber now v st)) \<noteq> None \<and>
     current_price (botStatus (fetchStatus toNumber now res st)) \<noteq> None \<and>
     current_price (botStatus (onmessage toNumber now f st)) \<noteq> None \<and>
     current_price (botStatus (layoutRun toNumber evs st)) \<noteq> None"
proof -
  assume set: "current_price (botStatus st) \<noteq> None"
  have 1: "current_price (botStatus (updatePrice toNumber now v st)) \<noteq> None"
    using set by (rule updatePrice_price_kept)
  have 2: "current_price (botStatus (fetchStatus toNumber now res st)) \<noteq> None"
    using set by (rule fetchStatus_price_kept)
  have 3: "current_price (botStatus (onmessage toNumber now f st)) \<noteq> None"
    using set by (rule onmessage_price_kept)
  have 4: "current_price (botStatus (layoutRun toNumber evs st)) \<noteq> None"
    unfolding layoutRun_def using set by (rule foldl_price_kept)
  from 1 2 3 4 show ?thesis by blast
qed

text \<open>
  An instance: after a pushed 100, a poll without a price, a push frame whose price is
  not a number, a failed poll and an update with NaN leave 100 in place.
\<close>

theorem price_never_back_to_null_witness:
  "current_price (botStatus (onmessage numbersOnly 1000 (priceFrame 100) initialLayout)) \<noteq> None \<and>
   current_price (botStatus (updatePrice numbersOnly 5000 (JNumber NaN)
     (onmessage numbersOnly 1000 (priceFrame 100) initialLayout))) = Some 100 \<and>
   current_price (botStatus (layoutRun numbersOnly
     [Poll 2000 (Resolved \<lparr>data_running = True, data_logged_in = False, data_current_price = JNull\<rparr>),
      Frame 3000 (Parsed (Some \<lparr>mtype = JString ''price_update'',
         mdata = Some \<lparr>data_price = JString ''n/a'', data_strategy_id = JUndefined\<rparr>\<rparr>)),
      Poll 4000 Rejected]
     (onmessage numbersOnly 1000 (priceFrame 100) initialLayout))) = Some 100"
  using price_never_back_to_null
    [where st = "onmessage numbersOnly 1000 (priceFrame 100) initialLayout" and toNumber = numbersOnly
       and now = 5000 and v = "JNumber NaN"]
  by (simp add: layoutRun_def fetchStatus_def onmessage_def priceFrame_def updatePrice_def
      numbersOnly_def stripCommas_def prune_def compareTrend_def initialLayout_def Let_def)

text \<open>
  C10. A poll, whatever its outcome, leaves \<open>lastMessage\<close> as it was; of the bot status it
  can change the fields \<open>running\<close>, \<open>logged_in\<close> and \<open>current_price\<close> and nothing else.
\<close>

theorem poll_keeps_lastMessage:
  "lastMessage (botStatus (fetchStatus toNumber now res st)) = lastMessage (botStatus st) \<and>
   botStatus (fetchStatus toNumber now res st) =
     (botStatus st)\<lparr>running := running (botStatus (fetchStatus toNumber now res st)),
                    logged_in := logged_in (botStatus (fetchStatus toNumber now res st)),
                    current_price := current_price (botStatus (fetchStatus toNumber now res st))\<rparr>"
proof (cases res)
  case Rejected
  then show ?thesis by (simp add: fetchStatus_rejected)
next
  case (Resolved d)
  show ?thesis
  proof (cases "normalizePrice toNumber (data_current_price d)")
    case None
    with Resolved show ?thesis by (simp add: fetchStatus_resolved_null)
  next
    case (Some p)
    with Resolved show ?thesis by (simp add: fetchStatus_resolved_price)
  qed
qed

subsection \<open>Startup progress\<close>

text \<open>
  C3, at the input where the code departs from it. No start is pending, so
  \<open>startingStrategyId\<close> is \<open>null\<close>. An \<open>order_created\<close> event whose \<open>strategy_id\<close> is \<open>null\<close>
  passes the test \<open>null === null\<close> and raises \<open>current\<close> from 0 to 1; a
  \<open>strategy_started\<close> event whose \<open>strategy_id\<close> is \<open>null\<close> passes it too, reloads the list
  and announces a completed start.
\<close>

theorem null_id_event_is_handled:
  "startingStrategyId initialPage = None \<and>
   startingProgress initialPage = \<lparr>current = 0, total = 0\<rparr> \<and>
   startingProgress (pageStep initialPage (Received (lifecycleEvent ''order_created'' JNull)))
     = \<lparr>current = 1, total = 0\<rparr> \<and>
   calls (pageStep initialPage (Received (lifecycleEvent ''strategy_started'' JNull)))
     = [CallLoadStrategies, CallShowToast success StartupComplete]"
  by (simp add: initialPage_def receive_def wsEffect_def eventFor_def lifecycleEvent_def Let_def)

text \<open>
  C4, at the inputs where the code departs from it. Strategy 7 is listed with
  \<open>grid_count\<close> 10. A first start of it receives one \<open>order_created\<close> event and then
  fails; the operator presses start again. The new \<open>startingStrategyId\<close> makes the effect
  run on the message still held in \<open>lastMessage\<close>, the old \<open>order_created\<close> event, so the
  progress of the second start stands at \<open>{current: 1, total: 10}\<close> before any event of it
  has arrived, and at \<open>{current: 4, total: 10}\<close> after three. And when the three
  \<open>order_created\<close> frames of a start are handled by the layout between two renders of the
  page, the effect sees the last of them only and \<open>current\<close> is 1, not 3.
\<close>

theorem startup_replays_and_merges_frames:
  "startingStrategyId (pageRun
      [Click 7 start, order_created 7,
       Settled 7 start (Failed \<lparr>status = Some 500, detail = None\<rparr>),
       Click 7 start]
      (initialPage\<lparr>strategies := [\<lparr>strategy_id = 7, grid_count = 10\<rparr>]\<rparr>))
     = Some 7 \<and>
   startingProgress (pageRun
      [Click 7 start, order_created 7,
       Settled 7 start (Failed \<lparr>status = Some 500, detail = None\<rparr>),
       Click 7 start]
      (initialPage\<lparr>strategies := [\<lparr>strategy_id = 7, grid_count = 10\<rparr>]\<rparr>))
     = \<lparr>current = 1, total = 10\<rparr> \<and>
   startingProgress (pageRun
      [Click 7 start, order_created 7,
       Settled 7 start (Failed \<lparr>status = Some 500, detail = None\<rparr>),
       Click 7 start, order_created 7, order_created 7, order_created 7]
      (initialPage\<lparr>strategies := [\<lparr>strategy_id = 7, grid_count = 10\<rparr>]\<rparr>))
     = \<lparr>current = 4, total = 10\<rparr> \<and>
   startingProgress (pageRun
      [Click 7 start,
       Frames [Parsed (lifecycleEvent ''order_created'' (JNumber (Finite 7))),
               Parsed (lifecycleEvent ''order_created'' (JNumber (Finite 7))),
               Parsed (lifecycleEvent ''order_created'' (JNumber (Finite 7)))]]
      (initialPage\<lparr>strategies := [\<lparr>strategy_id = 7, grid_count = 10\<rparr>]\<rparr>))
     = \<lparr>current = 1, total = 10\<rparr>"
  by (simp add: pageRun_def initialPage_def order_created_def lifecycleEvent_def
      handleAction_def executeAction_begin_def executeAction_settle_def apiCall_def failureToast_def
      commit_def receive_def receiveFrames_def wsEffect_def eventFor_def Let_def)

subsection \<open>Failed lifecycle commands\<close>

text \<open>
  C6, at the input where the code departs from it. On the detail page a \<open>pause\<close> of
  strategy 7 that fails with status 503 is followed by the warning notification and by
  nothing else: the page makes no call that reloads its data. The list page, on a \<open>stop\<close>
  that fails the same way, shows its warning and then reloads the list.
\<close>

theorem detail_failure_without_reload:
  "detailCalls (doAction_settle detail_pause (Failed \<lparr>status = Some 503, detail = None\<rparr>)
      (detail_handleAction detail_pause
         \<lparr>strategy = Some \<lparr>strategy_id = 7, grid_count = 10\<rparr>, detailConfirm = None, detailCalls = []\<rparr>))
     = [CallPauseStrategy 7, CallShowToast warning BusyPlacingOrders] \<and>
   calls (executeAction_settle 7 stop (Failed \<lparr>status = Some 503, detail = None\<rparr>)
      (executeAction_begin 7 stop initialPage))
     = [CallStopStrategy 7, CallShowToast warning SystemBusy, CallLoadStrategies]"
  by (simp add: doAction_settle_def doAction_begin_def detail_handleAction_def detailApiCall_def
      failureToast_def executeAction_settle_def executeAction_begin_def apiCall_def initialPage_def
      Let_def)

subsection \<open>Notifications\<close>

text \<open>
  C8, at the inputs where the code departs from it. In the ToastProvider two
  notifications shown within the same millisecond, here at instant 1000, receive the same
  id, and dismissing one of them removes both. In the layout a notification is shown and
  half an hour of frames and polls goes by: it is still in the list, since the layout sets
  no timer and only a dismissal removes a toast.
\<close>

theorem toast_ids_and_expiry_diverge:
  "map ptoast_id (ptoasts (provider_showToast 1000 provider_error ''second''
       (provider_showToast 1000 provider_success ''first'' initialProvider))) = [1000, 1000] \<and>
   ptoasts (provider_removeToast 1000 (provider_showToast 1000 provider_error ''second''
       (provider_showToast 1000 provider_success ''first'' initialProvider))) = [] \<and>
   toasts (layoutRun numbersOnly
       [Show success StartupComplete, Frame 900000 (priceFrame 100), Poll 1800000 Rejected]
       initialLayout)
     = [\<lparr>toast_id = 1, toast_type = success, toast_message = StartupComplete\<rparr>]"
  by (simp add: provider_showToast_def provider_removeToast_def initialProvider_def
      layoutRun_def showToast_def initialLayout_def fetchStatus_def onmessage_def priceFrame_def
      updatePrice_def prune_def Let_def)

end
